theory Spec2Isabelle
  imports Complex_Main
begin

section \<open>Numbers: the float64 values of pandas and numpy\<close>

text \<open>
  The program computes on float64 columns. A value is a finite number, one of the two
  infinities or NaN. Finite arithmetic is taken exact: the rounding and the overflow of
  binary64 are not part of this model, and neither is the sign of zero. What is modelled
  is what the code itself reacts to: division by zero (numpy yields an infinity, or NaN
  for 0/0, and does not raise), NaN propagation, and comparisons with NaN (all false).
\<close>

datatype fval = Fin real | PInf | NInf | NaN

fun f_neg :: "fval \<Rightarrow> fval" where
  "f_neg (Fin x) = Fin (- x)"
| "f_neg PInf = NInf"
| "f_neg NInf = PInf"
| "f_neg NaN = NaN"

fun f_add :: "fval \<Rightarrow> fval \<Rightarrow> fval" where
  "f_add NaN b = NaN"
| "f_add a NaN = NaN"
| "f_add (Fin x) (Fin y) = Fin (x + y)"
| "f_add PInf NInf = NaN"
| "f_add NInf PInf = NaN"
| "f_add PInf b = PInf"
| "f_add a PInf = PInf"
| "f_add NInf b = NInf"
| "f_add a NInf = NInf"

definition f_sub :: "fval \<Rightarrow> fval \<Rightarrow> fval" where
  "f_sub a b = f_add a (f_neg b)"

fun f_mul :: "fval \<Rightarrow> fval \<Rightarrow> fval" where
  "f_mul NaN b = NaN"
| "f_mul a NaN = NaN"
| "f_mul (Fin x) (Fin y) = Fin (x * y)"
| "f_mul (Fin x) PInf = (if x = 0 then NaN else if 0 < x then PInf else NInf)"
| "f_mul (Fin x) NInf = (if x = 0 then NaN else if 0 < x then NInf else PInf)"
| "f_mul PInf (Fin y) = (if y = 0 then NaN else if 0 < y then PInf else NInf)"
| "f_mul NInf (Fin y) = (if y = 0 then NaN else if 0 < y then NInf else PInf)"
| "f_mul PInf PInf = PInf"
| "f_mul PInf NInf = NInf"
| "f_mul NInf PInf = NInf"
| "f_mul NInf NInf = PInf"

text \<open>
  Division as numpy does it on float64: a nonzero number over zero is an infinity with the
  sign of the numerator, zero over zero is NaN, and nothing is raised.
\<close>

fun f_div :: "fval \<Rightarrow> fval \<Rightarrow> fval" where
  "f_div NaN b = NaN"
| "f_div a NaN = NaN"
| "f_div (Fin x) (Fin y) =
     (if y \<noteq> 0 then Fin (x / y)
      else if x = 0 then NaN else if 0 < x then PInf else NInf)"
| "f_div (Fin x) PInf = Fin 0"
| "f_div (Fin x) NInf = Fin 0"
| "f_div PInf (Fin y) = (if 0 \<le> y then PInf else NInf)"
| "f_div NInf (Fin y) = (if 0 \<le> y then NInf else PInf)"
| "f_div PInf b = NaN"
| "f_div NInf b = NaN"

fun f_abs :: "fval \<Rightarrow> fval" where
  "f_abs (Fin x) = Fin \<bar>x\<bar>"
| "f_abs PInf = PInf"
| "f_abs NInf = PInf"
| "f_abs NaN = NaN"

text \<open>The comparisons of Python on floats: every comparison with NaN but \<open>!=\<close> is false.\<close>

fun f_le :: "fval \<Rightarrow> fval \<Rightarrow> bool" where
  "f_le NaN b = False"
| "f_le a NaN = False"
| "f_le (Fin x) (Fin y) = (x \<le> y)"
| "f_le NInf b = True"
| "f_le a PInf = True"
| "f_le a b = False"

fun f_lt :: "fval \<Rightarrow> fval \<Rightarrow> bool" where
  "f_lt NaN b = False"
| "f_lt a NaN = False"
| "f_lt (Fin x) (Fin y) = (x < y)"
| "f_lt PInf b = False"
| "f_lt a NInf = False"
| "f_lt a b = True"

fun f_eq :: "fval \<Rightarrow> fval \<Rightarrow> bool" where
  "f_eq NaN b = False"
| "f_eq a NaN = False"
| "f_eq a b = (a = b)"


text \<open>\<open>np.clip(x, lo, hi)\<close>: NaN passes through, since both comparisons are false.\<close>

definition f_clip :: "fval \<Rightarrow> fval \<Rightarrow> fval \<Rightarrow> fval" where
  "f_clip x lo hi = (if f_lt x lo then lo else if f_lt hi x then hi else x)"

section \<open>Exceptions as values\<close>

datatype py_error = KeyError string | TypeError | ValueError | IndexError

definition bindE :: "'e + 'a \<Rightarrow> ('a \<Rightarrow> 'e + 'b) \<Rightarrow> 'e + 'b" where
  "bindE m f = (case m of Inl e \<Rightarrow> Inl e | Inr x \<Rightarrow> f x)"

fun mapE :: "('a \<Rightarrow> 'e + 'b) \<Rightarrow> 'a list \<Rightarrow> 'e + 'b list" where
  "mapE f [] = Inr []"
| "mapE f (x # xs) = bindE (f x) (\<lambda>y. bindE (mapE f xs) (\<lambda>ys. Inr (y # ys)))"

section \<open>Tables: the part of a pandas DataFrame the program uses\<close>

text \<open>
  A cell is a number (a missing value is NaN) or a text. A table has a number of rows and
  its columns in order, each a label with one cell per row. Reading a column that is not
  there raises KeyError; arithmetic on a text cell raises TypeError. Labels are assumed
  distinct wherever a theorem reads a column by its label (pandas returns a sub-table for a
  duplicated label, which this model does not follow).
\<close>

datatype cell = Num fval | Str string

record frame =
  nrows :: nat
  columns :: "(string \<times> cell list) list"

text \<open>\<open>pd.DataFrame()\<close>: no rows and no columns.\<close>

definition pd_DataFrame :: frame where
  "pd_DataFrame = \<lparr>nrows = 0, columns = []\<rparr>"

text \<open>\<open>df.empty\<close>: true when either axis has length 0.\<close>

definition df_empty :: "frame \<Rightarrow> bool" where
  "df_empty df = (nrows df = 0 \<or> columns df = [])"

definition col_names :: "frame \<Rightarrow> string list" where
  "col_names df = map fst (columns df)"

text \<open>\<open>name in df.columns\<close>\<close>

definition has_col :: "string \<Rightarrow> frame \<Rightarrow> bool" where
  "has_col n df = (n \<in> set (col_names df))"

text \<open>\<open>df[name]\<close>\<close>

definition col_get :: "string \<Rightarrow> frame \<Rightarrow> py_error + cell list" where
  "col_get n df = (case map_of (columns df) n of None \<Rightarrow> Inl (KeyError n) | Some c \<Rightarrow> Inr c)"

text \<open>\<open>df[name] = values\<close>: replaces the column in place, or appends a new one.\<close>

definition set_col :: "string \<Rightarrow> cell list \<Rightarrow> frame \<Rightarrow> frame" where
  "set_col n vals df =
     df\<lparr>columns :=
          (if has_col n df then map (\<lambda>(m, c). if m = n then (m, vals) else (m, c)) (columns df)
           else columns df @ [(n, vals)])\<rparr>"

definition cell_num :: "cell \<Rightarrow> py_error + fval" where
  "cell_num c = (case c of Num v \<Rightarrow> Inr v | Str s \<Rightarrow> Inl TypeError)"

text \<open>Element-wise arithmetic of two columns of one table, and of a column with a scalar.\<close>

definition series_binop ::
  "(fval \<Rightarrow> fval \<Rightarrow> fval) \<Rightarrow> cell list \<Rightarrow> cell list \<Rightarrow> py_error + cell list" where
  "series_binop f xs ys =
     bindE (mapE cell_num xs) (\<lambda>a. bindE (mapE cell_num ys) (\<lambda>b. Inr (map Num (map2 f a b))))"

definition series_map :: "(fval \<Rightarrow> fval) \<Rightarrow> cell list \<Rightarrow> py_error + cell list" where
  "series_map f xs = bindE (mapE cell_num xs) (\<lambda>a. Inr (map Num (map f a)))"

text \<open>\<open>series.fillna(0)\<close>: only NaN is replaced; an infinity stays.\<close>

definition fillna0 :: "cell list \<Rightarrow> cell list" where
  "fillna0 xs = map (\<lambda>c. case c of Num NaN \<Rightarrow> Num (Fin 0) | _ \<Rightarrow> c) xs"

text \<open>
  \<open>df.apply(lambda row: g(row[c1], row[c2]), axis=1)\<close>: the function is called once per row,
  so a missing column is a KeyError only when there is a row (on a table without rows the
  result is taken to be the empty column).
\<close>

definition apply_rows2 ::
  "frame \<Rightarrow> string \<Rightarrow> string \<Rightarrow> (cell \<Rightarrow> cell \<Rightarrow> py_error + cell) \<Rightarrow> py_error + cell list" where
  "apply_rows2 df c1 c2 g =
     (if nrows df = 0 then Inr []
      else bindE (col_get c1 df) (\<lambda>xs. bindE (col_get c2 df) (\<lambda>ys.
             mapE (\<lambda>(x, y). g x y) (zip xs ys))))"


section \<open>probability\_engine.py\<close>

text \<open>\<open>'budget_2025_26' if 'budget_2025_26' in df.columns else 'budget'\<close>, and the same for actual.\<close>

definition budget_col_of :: "frame \<Rightarrow> string" where
  "budget_col_of df = (if has_col ''budget_2025_26'' df then ''budget_2025_26'' else ''budget'')"

definition actual_col_of :: "frame \<Rightarrow> string" where
  "actual_col_of df = (if has_col ''actual_net'' df then ''actual_net'' else ''actual'')"

subsection \<open>calculate\_risk\_assessment\<close>

definition categorize_risk :: "fval \<Rightarrow> fval \<Rightarrow> string" where
  "categorize_risk variance_pct budget_amount =
     (let abs_variance = f_abs variance_pct in
      if f_eq budget_amount (Fin 0) then ''No Budget''
      else if f_le abs_variance (Fin 5) then ''Low Risk''
      else if f_le abs_variance (Fin 15) then ''Medium Risk''
      else if f_le abs_variance (Fin 30) then ''High Risk''
      else ''Critical Risk'')"

definition calculate_risk_assessment :: "frame \<Rightarrow> py_error + frame" where
  "calculate_risk_assessment df =
     (let df_risk = df;
          budget_col = budget_col_of df;
          actual_col = actual_col_of df
      in
      bindE (col_get budget_col df_risk) (\<lambda>b.
      bindE (col_get actual_col df_risk) (\<lambda>a.
      bindE (series_binop f_sub b a) (\<lambda>d.
      bindE (series_binop f_div d b) (\<lambda>q.
      bindE (series_map (\<lambda>x. f_mul x (Fin 100)) q) (\<lambda>p.
      let df1 = set_col ''variance_pct'' (fillna0 p) df_risk in
      bindE (apply_rows2 df1 ''variance_pct'' budget_col
               (\<lambda>v ba. bindE (cell_num v) (\<lambda>v'. bindE (cell_num ba) (\<lambda>ba'.
                          Inr (Str (categorize_risk v' ba')))))) (\<lambda>rc.
      let df2 = set_col ''risk_category'' rc df1 in
      bindE (col_get ''variance_pct'' df2) (\<lambda>v.
      bindE (series_map (\<lambda>x. f_clip (f_mul (f_abs x) (Fin 2)) (Fin 0) (Fin 100)) v) (\<lambda>rs.
      Inr (set_col ''risk_score'' rs df2))))))))))"

text \<open>
  The value one row gets in column \<open>variance_pct\<close>: the quotient as numpy computes it,
  with \<open>fillna(0)\<close> applied.
\<close>

definition variance_pct_of :: "fval \<Rightarrow> fval \<Rightarrow> fval" where
  "variance_pct_of b a =
     (case f_mul (f_div (f_sub b a) b) (Fin 100) of NaN \<Rightarrow> Fin 0 | v \<Rightarrow> v)"


subsection \<open>apply\_probability\_scenario\<close>

text \<open>\<open>d.get(k, default)\<close>\<close>

definition dict_get :: "('k \<rightharpoonup> 'v) \<Rightarrow> 'k \<Rightarrow> 'v \<Rightarrow> 'v" where
  "dict_get d k dflt = (case d k of None \<Rightarrow> dflt | Some v \<Rightarrow> v)"




section \<open>data\_processor.py: CSV reconciliation\<close>

text \<open>
  Texts are lists of characters with code points below 256. \<open>str.lower()\<close> on such a
  character: the letters A to Z, and the accented capitals from U+00C0 to U+00DE other
  than the multiplication sign U+00D7, move up by 32.
\<close>

definition lower_char :: "char \<Rightarrow> char" where
  "lower_char c =
     (let n = (of_char c :: nat) in
      if (65 \<le> n \<and> n \<le> 90) \<or> (192 \<le> n \<and> n \<le> 222 \<and> n \<noteq> 215)
      then char_of (n + 32) else c)"

text \<open>\<open>df.columns.str.lower().str.replace(' ', '_')\<close>, on one label.\<close>

definition normalize_name :: "string \<Rightarrow> string" where
  "normalize_name s = map (\<lambda>c. if c = CHR '' '' then CHR ''_'' else c) (map lower_char s)"

definition normalize_columns :: "frame \<Rightarrow> frame" where
  "normalize_columns df = df\<lparr>columns := map (\<lambda>(n, c). (normalize_name n, c)) (columns df)\<rparr>"

text \<open>The alias table, in the order of the dictionary literal.\<close>

definition column_mappings :: "(string \<times> string list) list" where
  "column_mappings =
     [(''description'', [''description'', ''desc'', ''item'', ''name'', ''details'']),
      (''budget'', [''budget'', ''budget_2025_26'', ''budgeted'', ''planned'', ''allocation'']),
      (''actual'', [''actual'', ''actual_net'', ''spent'', ''used'', ''expenditure'']),
      (''category'', [''category'', ''cat'', ''type'', ''group'', ''section'']),
      (''balance'', [''balance'', ''remaining'', ''variance'', ''difference'']),
      (''code'', [''code'', ''account_code'', ''ref'', ''reference'', ''id''])]"

text \<open>
  What the program shows to the user (the \<open>st.success\<close>, \<open>st.write\<close>, \<open>st.error\<close> and
  \<open>st.info\<close> calls), by content: the mappings applied, the failed essential-column check
  with the original labels and the missing canonical names, the successful check with the
  columns found, and the error caught by \<open>process_csv\<close>.
\<close>

datatype ui =
    MappingApplied "(string \<times> string) list"
  | MissingRequired "string list" "string list"
  | MappedOk "string list"
  | ProcessingError py_error

text \<open>
  The two nested loops that build \<open>column_map\<close> and \<open>mapped_columns\<close>: for each target,
  the first alias that is a label of the table (\<open>possible_name in df.columns\<close> is
  equality with a label), then \<open>break\<close>.
\<close>

fun map_loop ::
  "string list \<Rightarrow> (string \<times> string list) list \<Rightarrow> (string \<rightharpoonup> string) \<Rightarrow> (string \<times> string) list
   \<Rightarrow> (string \<rightharpoonup> string) \<times> (string \<times> string) list" where
  "map_loop names [] column_map mapped_columns = (column_map, mapped_columns)"
| "map_loop names ((target_col, possible_names) # rest) column_map mapped_columns =
     (case List.find (\<lambda>possible_name. possible_name \<in> set names) possible_names of
        None \<Rightarrow> map_loop names rest column_map mapped_columns
      | Some possible_name \<Rightarrow>
          map_loop names rest (column_map(possible_name \<mapsto> target_col))
            (mapped_columns @ [(possible_name, target_col)]))"

text \<open>\<open>df.rename(columns=column_map)\<close>\<close>

definition rename_columns :: "(string \<rightharpoonup> string) \<Rightarrow> frame \<Rightarrow> frame" where
  "rename_columns column_map df =
     df\<lparr>columns := map (\<lambda>(n, c). (dict_get column_map n n, c)) (columns df)\<rparr>"

definition map_csv_columns :: "frame \<Rightarrow> string list \<Rightarrow> frame \<times> ui list" where
  "map_csv_columns df original_columns =
     (case map_loop (col_names df) column_mappings Map.empty [] of
        (column_map, mapped_columns) \<Rightarrow>
      let df' = rename_columns column_map df;
          shown = (if mapped_columns \<noteq> [] then [MappingApplied mapped_columns] else []);
          essential_cols = [''description'', ''budget'', ''actual''];
          missing_essential = filter (\<lambda>col. \<not> has_col col df') essential_cols
      in if missing_essential \<noteq> []
         then (pd_DataFrame, shown @ [MissingRequired original_columns missing_essential])
         else (df', shown @ [MappedOk (filter (\<lambda>col. has_col col df')
                 [''description'', ''budget'', ''actual'', ''category'', ''balance''])]))"

text \<open>The derived columns of \<open>process_csv\<close>: balance, category and type, each only when absent.\<close>

definition add_derived :: "frame \<Rightarrow> py_error + frame" where
  "add_derived df =
     bindE (if \<not> has_col ''balance'' df \<and> has_col ''budget'' df \<and> has_col ''actual'' df
            then bindE (col_get ''budget'' df) (\<lambda>b.
                 bindE (col_get ''actual'' df) (\<lambda>a.
                 bindE (series_binop f_sub b a) (\<lambda>d. Inr (set_col ''balance'' d df))))
            else Inr df) (\<lambda>df1.
     let df2 = (if \<not> has_col ''category'' df1
                then set_col ''category'' (replicate (nrows df1) (Str ''General'')) df1
                else df1)
     in if \<not> has_col ''type'' df2 \<and> has_col ''budget'' df2
        then bindE (col_get ''budget'' df2) (\<lambda>b.
             bindE (mapE (\<lambda>x. bindE (cell_num x) (\<lambda>v.
                      Inr (Str (if f_lt v (Fin 0) then ''Income'' else ''Expenditure'')))) b) (\<lambda>t.
             Inr (set_col ''type'' t df2)))
        else Inr df2)"

text \<open>
  \<open>process_csv\<close>, from the table \<open>pd.read_csv\<close> returned on. An exception raised in the
  body is caught: the error is shown and the empty table returned.
\<close>

definition process_csv :: "frame \<Rightarrow> frame \<times> ui list" where
  "process_csv raw =
     (let original_columns = col_names raw in
      case map_csv_columns (normalize_columns raw) original_columns of
        (df, shown) \<Rightarrow>
          if df_empty df then (df, shown)
          else (case add_derived df of
                  Inl e \<Rightarrow> (pd_DataFrame, shown @ [ProcessingError e])
                | Inr df' \<Rightarrow> (df', shown)))"

text \<open>The labels of an uploaded table after normalisation and alias mapping.\<close>

definition reconciled_names :: "frame \<Rightarrow> string list" where
  "reconciled_names raw =
     col_names (rename_columns
       (fst (map_loop (col_names (normalize_columns raw)) column_mappings Map.empty []))
       (normalize_columns raw))"

section \<open>Basic facts\<close>

lemma bindE_Inl [simp]: "bindE (Inl e) f = Inl e"
  by (simp add: bindE_def)

lemma bindE_Inr [simp]: "bindE (Inr x) f = f x"
  by (simp add: bindE_def)

lemma map_of_replace_same:
  "n \<in> fst ` set cs \<Longrightarrow>
   map_of (map (\<lambda>(m, c). if m = n then (m, vals) else (m, c)) cs) n = Some vals"
  by (induction cs) auto

lemma map_of_replace_other:
  "k \<noteq> n \<Longrightarrow>
   map_of (map (\<lambda>(m, c). if m = n then (m, vals) else (m, c)) cs) k = map_of cs k"
  by (induction cs) auto

lemma col_get_set_col_same [simp]: "col_get n (set_col n vals df) = Inr vals"
proof (cases "has_col n df")
  case True
  then show ?thesis
    by (simp add: col_get_def set_col_def has_col_def col_names_def map_of_replace_same)
next
  case False
  then have "map_of (columns df) n = None"
    by (simp add: has_col_def col_names_def map_of_eq_None_iff)
  with False show ?thesis
    by (simp add: col_get_def set_col_def map_add_def)
qed

lemma col_get_set_col_other [simp]:
  "k \<noteq> n \<Longrightarrow> col_get k (set_col n vals df) = col_get k df"
  by (simp add: col_get_def set_col_def map_of_replace_other map_add_def split: option.splits)

lemma col_names_set_col:
  "col_names (set_col n vals df) = (if has_col n df then col_names df else col_names df @ [n])"
  by (auto simp: set_col_def col_names_def)

lemma has_col_set_col [simp]: "has_col k (set_col n vals df) = (k = n \<or> has_col k df)"
  by (auto simp: has_col_def col_names_set_col)

lemma nrows_set_col [simp]: "nrows (set_col n vals df) = nrows df"
  by (simp add: set_col_def)

lemma mapE_Inr: "(\<And>x. x \<in> set xs \<Longrightarrow> f x = Inr (h x)) \<Longrightarrow> mapE f xs = Inr (map h xs)"
  by (induction xs) auto

lemma mapE_cell_num_Num [simp]: "mapE cell_num (map Num vs) = Inr vs"
  by (induction vs) (auto simp: cell_num_def)

lemma series_binop_Num [simp]:
  "series_binop f (map Num a) (map Num b) = Inr (map Num (map2 f a b))"
  by (simp add: series_binop_def)

lemma series_map_Num [simp]: "series_map f (map Num a) = Inr (map Num (map f a))"
  by (simp add: series_map_def)




section \<open>Risk assessment\<close>











text \<open>
  C1. The variance percentage of a row is (budget - actual) / budget * 100 when the budget
  is not zero, and 0 when budget and actual are both zero. With a zero budget and a nonzero
  actual the quotient is an infinity, which \<open>fillna(0)\<close> leaves in place: the row below
  gets \<open>variance_pct\<close> minus infinity (and risk score 100), not 0.
\<close>

lemma variance_pct_of_fin:
  "variance_pct_of (Fin b) (Fin a) =
     (if b \<noteq> 0 then Fin ((b - a) / b * 100)
      else if a = 0 then Fin 0 else if a < 0 then PInf else NInf)"
  by (simp add: variance_pct_of_def f_sub_def)

theorem variance_pct_zero_budget_infinite:
  "calculate_risk_assessment
     \<lparr>nrows = 1,
      columns = [(''description'', [Str ''Unbudgeted item'']),
                 (''budget'', [Num (Fin 0)]), (''actual'', [Num (Fin 5)])]\<rparr>
   = Inr \<lparr>nrows = 1,
          columns = [(''description'', [Str ''Unbudgeted item'']),
                     (''budget'', [Num (Fin 0)]), (''actual'', [Num (Fin 5)]),
                     (''variance_pct'', [Num NInf]),
                     (''risk_category'', [Str ''No Budget'']),
                     (''risk_score'', [Num (Fin 100)])]\<rparr>"
  by code_simp

section \<open>Probability scenarios\<close>








section \<open>CSV reconciliation\<close>

lemma df_empty_pd_DataFrame [simp]: "df_empty pd_DataFrame"
  by (simp add: df_empty_def pd_DataFrame_def)

lemma add_derived_has_col:
  "add_derived df = Inr df'' \<Longrightarrow> has_col c df \<Longrightarrow> has_col c df''"
  by (auto simp: add_derived_def bindE_def Let_def split: sum.splits if_splits)

lemma process_csv_cases:
  assumes ml: "map_loop (col_names (normalize_columns raw)) column_mappings Map.empty [] = (cm, mc)"
  defines "df' \<equiv> rename_columns cm (normalize_columns raw)"
  defines "missing \<equiv> filter (\<lambda>col. \<not> has_col col df') [''description'', ''budget'', ''actual'']"
  defines "shown \<equiv> (if mc \<noteq> [] then [MappingApplied mc] else [])"
  shows "missing \<noteq> [] \<Longrightarrow>
           process_csv raw = (pd_DataFrame, shown @ [MissingRequired (col_names raw) missing])"
    and "missing = [] \<Longrightarrow> df_empty df' \<Longrightarrow> fst (process_csv raw) = df'"
    and "missing = [] \<Longrightarrow> \<not> df_empty df' \<Longrightarrow> add_derived df' = Inl e \<Longrightarrow>
           fst (process_csv raw) = pd_DataFrame"
    and "missing = [] \<Longrightarrow> \<not> df_empty df' \<Longrightarrow> add_derived df' = Inr df'' \<Longrightarrow>
           fst (process_csv raw) = df''"
  using ml unfolding df'_def missing_def shown_def
  by (simp_all add: process_csv_def map_csv_columns_def Let_def)

text \<open>
  C5. Whenever one of the three essential columns (description, budget, actual) is absent
  after alias mapping, process_csv returns the empty table \<open>pd.DataFrame()\<close> and shows
  exactly the missing canonical names; and a table that is not empty is returned only with
  all three essential columns, so no partial dataset is ever a successful result.
\<close>

theorem csv_missing_essential_rejected:
  "(filter (\<lambda>c. c \<notin> set (reconciled_names raw)) [''description'', ''budget'', ''actual''] \<noteq> [] \<longrightarrow>
      fst (process_csv raw) = pd_DataFrame \<and>
      MissingRequired (col_names raw)
        (filter (\<lambda>c. c \<notin> set (reconciled_names raw)) [''description'', ''budget'', ''actual''])
        \<in> set (snd (process_csv raw))) \<and>
   (\<not> df_empty (fst (process_csv raw)) \<longrightarrow>
      {''description'', ''budget'', ''actual''} \<subseteq> set (col_names (fst (process_csv raw))))"
proof -
  obtain cm mc where
    ml: "map_loop (col_names (normalize_columns raw)) column_mappings Map.empty [] = (cm, mc)"
    by (cases "map_loop (col_names (normalize_columns raw)) column_mappings Map.empty []")
  define df' where "df' = rename_columns cm (normalize_columns raw)"
  define missing where
    "missing = filter (\<lambda>col. \<not> has_col col df') [''description'', ''budget'', ''actual'']"
  have rn: "reconciled_names raw = col_names df'"
    by (simp add: reconciled_names_def ml df'_def)
  have miss: "filter (\<lambda>c. c \<notin> set (reconciled_names raw))
                [''description'', ''budget'', ''actual''] = missing"
    by (simp add: rn missing_def has_col_def)
  show ?thesis
  proof (cases "missing = []")
    case False
    from process_csv_cases(1) [OF ml False [unfolded missing_def df'_def]]
    show ?thesis
      unfolding miss by (simp add: missing_def df'_def)
  next
    case True
    then have ess: "has_col ''description'' df'" "has_col ''budget'' df'" "has_col ''actual'' df'"
      by (auto simp: missing_def split: if_splits)
    have "{''description'', ''budget'', ''actual''} \<subseteq> set (col_names (fst (process_csv raw)))"
      if ne: "\<not> df_empty (fst (process_csv raw))"
    proof (cases "df_empty df'")
      case e: True
      from process_csv_cases(2) [OF ml True [unfolded missing_def df'_def] e [unfolded df'_def]]
      show ?thesis using ne e by (simp add: df'_def)
    next
      case ne': False
      show ?thesis
      proof (cases "add_derived df'")
        case (Inl e)
        from process_csv_cases(3) [OF ml True [unfolded missing_def df'_def]
            ne' [unfolded df'_def] Inl [unfolded df'_def]]
        show ?thesis using ne by simp
      next
        case (Inr df'')
        from process_csv_cases(4) [OF ml True [unfolded missing_def df'_def]
            ne' [unfolded df'_def] Inr [unfolded df'_def]]
        have "fst (process_csv raw) = df''" .
        then show ?thesis
          using ess add_derived_has_col [OF Inr] by (simp add: has_col_def)
      qed
    qed
    then show ?thesis
      unfolding miss using True by simp
  qed
qed

theorem csv_missing_essential_rejected_witness:
  "fst (process_csv \<lparr>nrows = 1, columns = [(''foo'', [Str ''Clerk'']),
                                            (''bar'', [Num (Fin 100)])]\<rparr>) = pd_DataFrame \<and>
   MissingRequired [''foo'', ''bar''] [''description'', ''budget'', ''actual'']
     \<in> set (snd (process_csv \<lparr>nrows = 1, columns = [(''foo'', [Str ''Clerk'']),
                                                       (''bar'', [Num (Fin 100)])]\<rparr>)) \<and>
   {''description'', ''budget'', ''actual''}
     \<subseteq> set (col_names (fst (process_csv
           \<lparr>nrows = 1, columns = [(''Item'', [Str ''Clerk'']), (''Budgeted'', [Num (Fin 100)]),
                                 (''Spent'', [Num (Fin 40)])]\<rparr>)))"
proof -
  let ?foo = "\<lparr>nrows = 1, columns = [(''foo'', [Str ''Clerk'']), (''bar'', [Num (Fin 100)])]\<rparr>"
  let ?item = "\<lparr>nrows = 1, columns = [(''Item'', [Str ''Clerk'']), (''Budgeted'', [Num (Fin 100)]),
                                      (''Spent'', [Num (Fin 40)])]\<rparr>"
  have h: "filter (\<lambda>c. c \<notin> set (reconciled_names ?foo)) [''description'', ''budget'', ''actual'']
           = [''description'', ''budget'', ''actual'']"
    by code_simp
  have ne: "\<not> df_empty (fst (process_csv ?item))"
    by code_simp
  have cn: "col_names ?foo = [''foo'', ''bar'']"
    by (simp add: col_names_def)
  have "[''description'', ''budget'', ''actual''] \<noteq> ([] :: string list)"
    by simp
  with conjunct1 [OF csv_missing_essential_rejected [of ?foo]]
  have a: "fst (process_csv ?foo) = pd_DataFrame \<and>
           MissingRequired [''foo'', ''bar''] [''description'', ''budget'', ''actual'']
             \<in> set (snd (process_csv ?foo))"
    unfolding h cn by blast
  from conjunct2 [OF csv_missing_essential_rejected [of ?item]] ne
  have b: "{''description'', ''budget'', ''actual''}
             \<subseteq> set (col_names (fst (process_csv ?item)))"
    by blast
  from a b show ?thesis
    by blast
qed

text \<open>
  C2, as the claim states it, fails: the label "Item Name" is normalised to
  \<open>item_name\<close>, which is none of the aliases of description (aliases are compared with
  the whole label, not searched in it), so the essential-column check fails and the upload
  is rejected with description reported missing.
\<close>

theorem csv_item_name_rejected:
  "process_csv \<lparr>nrows = 1,
                columns = [(''Item Name'', [Str ''Clerks Salary'']),
                           (''Budgeted'', [Num (Fin 42134)]),
                           (''Spent'', [Num (Fin 19577.64)])]\<rparr>
   = (pd_DataFrame,
      [MappingApplied [(''budgeted'', ''budget''), (''spent'', ''actual'')],
       MissingRequired [''Item Name'', ''Budgeted'', ''Spent''] [''description'']])"
  by code_simp

text \<open>
  C2, amended. Given the columns ["Item", "Budgeted", "Spent"], reconciliation maps them to
  description, budget and actual respectively and the essential-column check passes;
  given ["Item Name", "Budgeted", "Spent"], it maps only budgeted and spent, and rejects
  the table with description missing. Both hold whatever the cells of the columns are.
\<close>

theorem csv_item_budgeted_spent:
  "map_csv_columns
     (normalize_columns \<lparr>nrows = n, columns = [(''Item'', d), (''Budgeted'', b), (''Spent'', a)]\<rparr>)
     [''Item'', ''Budgeted'', ''Spent'']
   = (\<lparr>nrows = n, columns = [(''description'', d), (''budget'', b), (''actual'', a)]\<rparr>,
      [MappingApplied [(''item'', ''description''), (''budgeted'', ''budget''),
                       (''spent'', ''actual'')],
       MappedOk [''description'', ''budget'', ''actual'']]) \<and>
   map_csv_columns
     (normalize_columns
        \<lparr>nrows = n, columns = [(''Item Name'', d), (''Budgeted'', b), (''Spent'', a)]\<rparr>)
     [''Item Name'', ''Budgeted'', ''Spent'']
   = (pd_DataFrame,
      [MappingApplied [(''budgeted'', ''budget''), (''spent'', ''actual'')],
       MissingRequired [''Item Name'', ''Budgeted'', ''Spent''] [''description'']])"
  by code_simp

lemma map_loop_canonical:
  assumes "''description'' \<in> set names" "''budget'' \<in> set names" "''actual'' \<in> set names"
    "''category'' \<in> set names" "''balance'' \<in> set names" "''code'' \<in> set names"
  shows "map_loop names column_mappings Map.empty [] =
     ([''description'' \<mapsto> ''description'', ''budget'' \<mapsto> ''budget'', ''actual'' \<mapsto> ''actual'',
       ''category'' \<mapsto> ''category'', ''balance'' \<mapsto> ''balance'', ''code'' \<mapsto> ''code''],
      [(''description'', ''description''), (''budget'', ''budget''), (''actual'', ''actual''),
       (''category'', ''category''), (''balance'', ''balance''), (''code'', ''code'')])"
  using assms by (simp add: column_mappings_def)

lemma rename_identity:
  assumes "\<And>n. n \<in> set (col_names df) \<Longrightarrow> dict_get cm n n = n"
  shows "rename_columns cm df = df"
proof -
  have "map (\<lambda>(n, c). (dict_get cm n n, c)) (columns df) = columns df"
    using assms by (intro map_idI) (force simp: col_names_def)
  then show ?thesis by (simp add: rename_columns_def)
qed

lemma normalize_identity:
  assumes "\<forall>n \<in> set (col_names df). normalize_name n = n"
  shows "normalize_columns df = df"
proof -
  have "map (\<lambda>(n, c). (normalize_name n, c)) (columns df) = columns df"
    using assms by (intro map_idI) (force simp: col_names_def)
  then show ?thesis by (simp add: normalize_columns_def)
qed

text \<open>
  C6. Reconciling a dataset that is already canonical is a no-op: when the columns
  description, budget, actual, category, balance, code and type are present under their
  canonical names, and every label is in normal form (lower case, no space), process_csv
  returns the dataset unchanged.
\<close>

theorem csv_reconcile_canonical_noop:
  assumes norm: "\<forall>n \<in> set (col_names df). normalize_name n = n"
    and canon: "{''description'', ''budget'', ''actual'', ''category'', ''balance'', ''code'', ''type''}
              \<subseteq> set (col_names df)"
  shows "fst (process_csv df) = df"
proof -
  let ?cm = "[''description'' \<mapsto> ''description'', ''budget'' \<mapsto> ''budget'',
              ''actual'' \<mapsto> ''actual'', ''category'' \<mapsto> ''category'',
              ''balance'' \<mapsto> ''balance'', ''code'' \<mapsto> ''code'']"
  let ?mc = "[(''description'', ''description''), (''budget'', ''budget''),
              (''actual'', ''actual''), (''category'', ''category''),
              (''balance'', ''balance''), (''code'', ''code'')]"
  have nd: "normalize_columns df = df"
    using norm by (rule normalize_identity)
  have ml: "map_loop (col_names df) column_mappings Map.empty [] = (?cm, ?mc)"
    using canon by (intro map_loop_canonical) simp_all
  have rn: "rename_columns ?cm df = df"
    by (rule rename_identity) (simp add: dict_get_def)
  have has: "has_col ''description'' df" "has_col ''budget'' df" "has_col ''actual'' df"
    "has_col ''category'' df" "has_col ''balance'' df" "has_col ''type'' df"
    using canon by (simp_all add: has_col_def)
  have ad: "add_derived df = Inr df"
    using has by (simp add: add_derived_def Let_def)
  have mc: "map_csv_columns df (col_names df) =
              (df, [MappingApplied ?mc,
                    MappedOk [''description'', ''budget'', ''actual'', ''category'', ''balance'']])"
    unfolding map_csv_columns_def ml by (simp add: rn has Let_def)
  show ?thesis
    unfolding process_csv_def nd Let_def mc by (simp add: ad)
qed

theorem csv_reconcile_canonical_noop_witness:
  "fst (process_csv
     \<lparr>nrows = 1,
      columns = [(''code'', [Str ''4000'']), (''description'', [Str ''Clerks Salary'']),
                 (''category'', [Str ''Administration'']), (''budget'', [Num (Fin 42134)]),
                 (''actual'', [Num (Fin 19577.64)]), (''balance'', [Num (Fin 22556.36)]),
                 (''type'', [Str ''Expenditure''])]\<rparr>)
   = \<lparr>nrows = 1,
      columns = [(''code'', [Str ''4000'']), (''description'', [Str ''Clerks Salary'']),
                 (''category'', [Str ''Administration'']), (''budget'', [Num (Fin 42134)]),
                 (''actual'', [Num (Fin 19577.64)]), (''balance'', [Num (Fin 22556.36)]),
                 (''type'', [Str ''Expenditure''])]\<rparr>"
proof -
  let ?df = "\<lparr>nrows = 1,
      columns = [(''code'', [Str ''4000'']), (''description'', [Str ''Clerks Salary'']),
                 (''category'', [Str ''Administration'']), (''budget'', [Num (Fin 42134)]),
                 (''actual'', [Num (Fin 19577.64)]), (''balance'', [Num (Fin 22556.36)]),
                 (''type'', [Str ''Expenditure''])]\<rparr>"
  have h1: "\<forall>n \<in> set (col_names ?df). normalize_name n = n"
    by code_simp
  have h2: "{''description'', ''budget'', ''actual'', ''category'', ''balance'', ''code'', ''type''}
              \<subseteq> set (col_names ?df)"
    by (simp add: col_names_def)
  from csv_reconcile_canonical_noop [OF h1 h2] show ?thesis .
qed

lemma map_loop_keeps:
  "map_loop names ms cm0 mc0 = (cm, mc) \<Longrightarrow> \<forall>(t, ps) \<in> set ms. n \<notin> set ps \<Longrightarrow> cm n = cm0 n"
proof (induction ms arbitrary: cm0 mc0)
  case Nil
  then show ?case by simp
next
  case (Cons m ms)
  obtain t ps where m: "m = (t, ps)" by (cases m)
  show ?case
  proof (cases "List.find (\<lambda>p. p \<in> set names) ps")
    case None
    with Cons m show ?thesis by simp
  next
    case (Some p)
    then have "p \<in> set ps" by (auto simp: find_Some_iff)
    with Cons.prems m have "p \<noteq> n" by auto
    with Cons m Some show ?thesis by auto
  qed
qed

lemma map_loop_source:
  "map_loop names ms cm0 mc0 = (cm, mc) \<Longrightarrow> cm n = Some t \<Longrightarrow>
   cm0 n = Some t \<or> (\<exists>ps. (t, ps) \<in> set ms \<and> List.find (\<lambda>p. p \<in> set names) ps = Some n)"
proof (induction ms arbitrary: cm0 mc0)
  case Nil
  then show ?case by simp
next
  case (Cons m ms)
  obtain t' ps where m: "m = (t', ps)" by (cases m)
  show ?case
  proof (cases "List.find (\<lambda>p. p \<in> set names) ps")
    case None
    with Cons.prems m have "map_loop names ms cm0 mc0 = (cm, mc)" by simp
    from Cons.IH [OF this Cons.prems(2)] show ?thesis by auto
  next
    case (Some p)
    with Cons.prems m
    have "map_loop names ms (cm0(p \<mapsto> t')) (mc0 @ [(p, t')]) = (cm, mc)" by simp
    from Cons.IH [OF this Cons.prems(2)] Some m show ?thesis
      by (auto split: if_splits)
  qed
qed

end
